theory Spec2Isabelle
  imports Complex_Main "HOL-Library.AList"
begin

section \<open>Values shared by both front ends\<close>

text \<open>
  Both programs move decoded JSON around as Python dicts, lists, strings and numbers.
  A decoded document is a \<open>json\<close> value; Python's \<open>None\<close> is \<open>JNull\<close>, a dict is an
  association list in insertion order.
\<close>

datatype json =
    JNull
  | JBool bool
  | JNum rat
  | JStr string
  | JArr "json list"
  | JObj "(string \<times> json) list"

text \<open>Python truthiness, as used by \<open>if x\<close>, \<open>x or d\<close> and \<open>not x\<close>.\<close>

fun truthy :: "json \<Rightarrow> bool" where
  "truthy JNull = False"
| "truthy (JBool b) = b"
| "truthy (JNum r) = (r \<noteq> 0)"
| "truthy (JStr s) = (s \<noteq> [])"
| "truthy (JArr xs) = (xs \<noteq> [])"
| "truthy (JObj kvs) = (kvs \<noteq> [])"

text \<open>\<open>d.get(k)\<close> on a decoded value that is a dict: the value, or \<open>None\<close>.\<close>

definition dict_get :: "(string \<times> json) list \<Rightarrow> string \<Rightarrow> json" where
  "dict_get d k = (case map_of d k of None \<Rightarrow> JNull | Some v \<Rightarrow> v)"

text \<open>
  Python slices \<open>xs[i:]\<close>, \<open>xs[:j]\<close> and \<open>xs[i:j]\<close>: a negative bound counts from the
  end, and every bound is clipped to the list.
\<close>

definition slice_bound :: "nat \<Rightarrow> int \<Rightarrow> nat" where
  "slice_bound len i = (if i < 0 then nat (max (i + int len) 0) else min (nat i) len)"

definition slice_from :: "int \<Rightarrow> 'a list \<Rightarrow> 'a list" where
  "slice_from i xs = drop (slice_bound (length xs) i) xs"

definition slice_upto :: "int \<Rightarrow> 'a list \<Rightarrow> 'a list" where
  "slice_upto j xs = take (slice_bound (length xs) j) xs"

definition slice :: "int \<Rightarrow> int \<Rightarrow> 'a list \<Rightarrow> 'a list" where
  "slice i j xs =
     (let a = slice_bound (length xs) i; b = slice_bound (length xs) j
      in take (b - a) (drop a xs))"

section \<open>The catalog front end: liked movies and search history\<close>

text \<open>
  \<open>MovieRecommender\<close> keeps two mutable fields that it also pickles to local files:
  \<open>liked_movies\<close>, a dict from movie id to a record, and \<open>user_search_history\<close>, a list.
  A Python dict keeps insertion order, assignment to a present key replaces the value in
  place and assignment to a new key appends: that is \<open>AList.update\<close>. \<open>del d[k]\<close> is
  \<open>AList.delete\<close>. \<open>datetime.now()\<close> is an argument of the model.
\<close>

type_synonym datetime = int

record liked_entry =
  movie_data :: json
  timestamp :: datetime
  mode :: string

record search_entry =
  query :: string
  movie_ids :: "int list"
  languages :: "string list"
  timestamp :: datetime

text \<open>
  The outcome of one attempt to write a pickle file. Both \<open>save_\<close> methods swallow every
  exception; after a failed attempt the file holds whatever the attempt left behind.
\<close>

datatype 'a dump = Dumped | DumpFailed "'a option"

record recommender =
  liked_movies :: "(int \<times> liked_entry) list"
  user_search_history :: "search_entry list"
  liked_movies_pkl :: "(int \<times> liked_entry) list option"
  search_history_pkl :: "search_entry list option"

definition save_liked_movies ::
  "recommender \<Rightarrow> (int \<times> liked_entry) list dump \<Rightarrow> recommender" where
  "save_liked_movies s io =
     (case io of
        Dumped \<Rightarrow> s\<lparr>liked_movies_pkl := Some (liked_movies s)\<rparr>
      | DumpFailed left \<Rightarrow> s\<lparr>liked_movies_pkl := left\<rparr>)"

definition save_search_history ::
  "recommender \<Rightarrow> search_entry list dump \<Rightarrow> recommender" where
  "save_search_history s io =
     (case io of
        Dumped \<Rightarrow> s\<lparr>search_history_pkl := Some (user_search_history s)\<rparr>
      | DumpFailed left \<Rightarrow> s\<lparr>search_history_pkl := left\<rparr>)"

text \<open>\<open>mode or 'Unknown'\<close>: a missing or empty mode is recorded as \<open>'Unknown'\<close>.\<close>

definition mode_or_unknown :: "string option \<Rightarrow> string" where
  "mode_or_unknown m = (case m of None \<Rightarrow> ''Unknown'' | Some t \<Rightarrow> if t = [] then ''Unknown'' else t)"

definition like_movie ::
  "recommender \<Rightarrow> int \<Rightarrow> json \<Rightarrow> string option \<Rightarrow> datetime \<Rightarrow>
     (int \<times> liked_entry) list dump \<Rightarrow> recommender" where
  "like_movie s movie_id data m now io =
     save_liked_movies
       (s\<lparr>liked_movies :=
            AList.update movie_id
              \<lparr>movie_data = data, timestamp = now, mode = mode_or_unknown m\<rparr>
              (liked_movies s)\<rparr>)
       io"

definition is_movie_liked :: "recommender \<Rightarrow> int \<Rightarrow> bool" where
  "is_movie_liked s movie_id = (movie_id \<in> set (map fst (liked_movies s)))"

definition unlike_movie ::
  "recommender \<Rightarrow> int \<Rightarrow> (int \<times> liked_entry) list dump \<Rightarrow> recommender" where
  "unlike_movie s movie_id io =
     (if movie_id \<in> set (map fst (liked_movies s))
      then save_liked_movies (s\<lparr>liked_movies := AList.delete movie_id (liked_movies s)\<rparr>) io
      else s)"

text \<open>\<open>movie_ids or []\<close> and \<open>languages or []\<close>: an omitted argument is the empty list.\<close>

definition or_empty :: "'a list option \<Rightarrow> 'a list" where
  "or_empty xs = (case xs of None \<Rightarrow> [] | Some ys \<Rightarrow> ys)"

definition add_to_search_history ::
  "recommender \<Rightarrow> string \<Rightarrow> int list option \<Rightarrow> string list option \<Rightarrow> datetime \<Rightarrow>
     search_entry list dump \<Rightarrow> recommender" where
  "add_to_search_history s q ids langs now io =
     (let search_entry = \<lparr>query = q, movie_ids = or_empty ids, languages = or_empty langs,
                           timestamp = now\<rparr>;
          appended = user_search_history s @ [search_entry];
          kept = (if length appended > 50 then slice_from (- 50) appended else appended)
      in save_search_history (s\<lparr>user_search_history := kept\<rparr>) io)"

text \<open>The sidebar's Clear History button: the list is replaced by \<open>[]\<close> and saved.\<close>

definition clear_history :: "recommender \<Rightarrow> search_entry list dump \<Rightarrow> recommender" where
  "clear_history s io = save_search_history (s\<lparr>user_search_history := []\<rparr>) io"

text \<open>
  Every place of the program that writes to a \<open>MovieRecommender\<close> after its construction:
  the three mutating methods and the Clear History button.
\<close>

datatype action =
    LikeMovie int json "string option" datetime "(int \<times> liked_entry) list dump"
  | UnlikeMovie int "(int \<times> liked_entry) list dump"
  | AddToSearchHistory string "int list option" "string list option" datetime
      "search_entry list dump"
  | ClearHistory "search_entry list dump"

fun perform :: "recommender \<Rightarrow> action \<Rightarrow> recommender" where
  "perform s (LikeMovie movie_id data m now io) = like_movie s movie_id data m now io"
| "perform s (UnlikeMovie movie_id io) = unlike_movie s movie_id io"
| "perform s (AddToSearchHistory q ids langs now io) = add_to_search_history s q ids langs now io"
| "perform s (ClearHistory io) = clear_history s io"

text \<open>Two small states used to run the operations.\<close>

definition liked_example :: recommender where
  "liked_example =
     \<lparr>liked_movies = [(550, \<lparr>movie_data = JObj [(''title'', JStr ''Fight Club'')],
                              timestamp = 100, mode = ''Unknown''\<rparr>),
                      (13, \<lparr>movie_data = JObj [(''title'', JStr ''Forrest Gump'')],
                             timestamp = 101, mode = ''Unknown''\<rparr>)],
      user_search_history = [],
      liked_movies_pkl = None,
      search_history_pkl = None\<rparr>"

definition history_example :: recommender where
  "history_example =
     \<lparr>liked_movies = [],
      user_search_history =
        [\<lparr>query = ''heat'', movie_ids = [949], languages = [''en''], timestamp = 10\<rparr>],
      liked_movies_pkl = None,
      search_history_pkl = None\<rparr>"

section \<open>The catalog front end: pagination\<close>

text \<open>
  \<open>main\<close> keeps three page counters in the session: \<open>current_page\<close> for the seven
  browsing modes, \<open>search_page\<close> for the search mode and \<open>recommendation_page\<close> for the
  recommendation list. Each key is created with the value 1 before any handler reads it.
  The seven browsing branches repeat the same handlers under different button keys, so one
  handler per kind of event stands for all of them, with the mode as an argument.
\<close>

record pages =
  current_page :: int
  search_page :: int
  recommendation_page :: int

definition initial_pages :: pages where
  "initial_pages = \<lparr>current_page = 1, search_page = 1, recommendation_page = 1\<rparr>"

datatype mode =
    SearchMovies
  | BrowseTrending
  | LatestMovies
  | BrowseByGenre
  | BrowseByLanguage
  | BrowseByYear
  | DubbedMovies
  | AdvancedFilters

datatype event =
    ModeChanged
  | FilterChanged mode
  | Previous mode
  | Next mode
  | NextSearchBottom int
  | EmptyResult mode
  | SearchCleared
  | RecommendationsGenerated
  | PreviousRecommendation
  | NextRecommendation nat
  | BackToBrowse

text \<open>
  \<open>FilterChanged\<close> is a changed filter in a browsing mode and a changed query in the search
  mode. \<open>Previous\<close> is either Previous button of a mode, \<open>Next\<close> a Next button that
  has no bound (both Next buttons of a browsing mode, the top one of the search mode).
  \<open>NextSearchBottom total_pages\<close> is the lower Next button of the search mode.
  \<open>EmptyResult\<close> is a fetch that returned no movies: the browsing modes step back, the
  search mode only warns. \<open>NextRecommendation n\<close> is a Next button over \<open>n\<close>
  recommendations, ten to a page.
\<close>

fun handle :: "pages \<Rightarrow> event \<Rightarrow> pages" where
  "handle s ModeChanged = s\<lparr>current_page := 1\<rparr>"
| "handle s (FilterChanged m) =
     (if m = SearchMovies then s\<lparr>search_page := 1\<rparr> else s\<lparr>current_page := 1\<rparr>)"
| "handle s (Previous m) =
     (if m = SearchMovies
      then (if search_page s > 1 then s\<lparr>search_page := search_page s - 1\<rparr> else s)
      else (if current_page s > 1 then s\<lparr>current_page := current_page s - 1\<rparr> else s))"
| "handle s (Next m) =
     (if m = SearchMovies then s\<lparr>search_page := search_page s + 1\<rparr>
      else s\<lparr>current_page := current_page s + 1\<rparr>)"
| "handle s (NextSearchBottom total_pages) =
     (if search_page s < total_pages then s\<lparr>search_page := search_page s + 1\<rparr> else s)"
| "handle s (EmptyResult m) =
     (if m = SearchMovies then s
      else (if current_page s > 1 then s\<lparr>current_page := current_page s - 1\<rparr> else s))"
| "handle s SearchCleared = s\<lparr>search_page := 1\<rparr>"
| "handle s RecommendationsGenerated = s\<lparr>recommendation_page := 1\<rparr>"
| "handle s PreviousRecommendation =
     (if recommendation_page s > 1
      then s\<lparr>recommendation_page := recommendation_page s - 1\<rparr> else s)"
| "handle s (NextRecommendation n) =
     (let items_per_page = 10;
          total_pages = (int n + items_per_page - 1) div items_per_page
      in if recommendation_page s < total_pages
         then s\<lparr>recommendation_page := recommendation_page s + 1\<rparr> else s)"
| "handle s BackToBrowse = s\<lparr>recommendation_page := 1\<rparr>"

section \<open>The similarity front end: catalog, session and trending window\<close>

text \<open>
  The errors the modelled Python can raise. A function that can raise returns
  \<open>py_error + 'a\<close>, with \<open>Inl\<close> for the exception.
\<close>

datatype py_error =
    IndexError
  | KeyError
  | TypeError
  | AttributeError
  | ValueError
  | ZeroDivisionError
  | ConnectionError
  | HTTPError
  | JSONDecodeError

text \<open>
  The \<open>movies\<close> table is a pandas table unpickled from a file that is built elsewhere.
  Besides its columns every row carries an index label, which need not be its position: a
  table saved with the default index is labelled \<open>0, 1, 2, ...\<close>, one that lost rows or
  was re-indexed before it was saved is not. A label is an integer or some other value.
\<close>

datatype label = IntLabel int | OtherLabel string

text \<open>
  A row of the table: its index label, the \<open>title\<close> column and, when the table has one,
  the \<open>vote_average\<close> column. The list of rows is in the order of the table, so the place
  of a row in the list is its position (what \<open>iloc\<close> counts).
\<close>

record movie =
  index_label :: label
  title :: string
  vote_average :: "rat option"


text \<open>
  The session of the similarity front end. A field is \<open>None\<close> while its key is not in
  \<open>st.session_state\<close>; \<open>selected_movie_name\<close> can also hold Python's \<open>None\<close>.
\<close>

record app_session =
  selected_movie_name :: "string option option"
  movie_selectbox :: "string option option"
  trending_offset :: "int option"

text \<open>The handling of the \<open>movie\<close> query-string parameter at the top of the script.\<close>

definition handle_url_params ::
  "movie list \<Rightarrow> (string \<times> string) list \<Rightarrow> app_session \<Rightarrow> app_session" where
  "handle_url_params movies query_params s =
     (case map_of query_params ''movie'' of
        None \<Rightarrow> s
      | Some url_movie \<Rightarrow>
          if url_movie \<in> set (map title movies)
          then (if selected_movie_name s = None \<or> selected_movie_name s \<noteq> Some (Some url_movie)
                then s\<lparr>selected_movie_name := Some (Some url_movie),
                       movie_selectbox := Some (Some url_movie)\<rparr>
                else s)
          else s)"

definition init_session :: "app_session \<Rightarrow> app_session" where
  "init_session s =
     (let s1 = (if trending_offset s = None then s\<lparr>trending_offset := Some 0\<rparr> else s)
      in if selected_movie_name s1 = None then s1\<lparr>selected_movie_name := Some None\<rparr> else s1)"

text \<open>The Refresh button: \<open>trending_offset += 10\<close>.\<close>

definition refresh :: "int \<Rightarrow> int" where
  "refresh offset = offset + 10"

text \<open>
  \<open>start_idx = trending_offset % (len(rows) - 10)\<close>. Python's \<open>%\<close> on integers is
  floored, as \<open>mod\<close> on \<open>int\<close> is, and raises on a zero divisor.
\<close>

definition trending_start_idx :: "int \<Rightarrow> nat \<Rightarrow> py_error + int" where
  "trending_start_idx offset len =
     (if int len - 10 = 0 then Inl ZeroDivisionError else Inr (offset mod (int len - 10)))"

text \<open>\<open>rows.iloc[start_idx : start_idx + 10]\<close>, for the sorted table or the table as it is.\<close>

definition trending_movies :: "int \<Rightarrow> 'a list \<Rightarrow> py_error + 'a list" where
  "trending_movies offset rows =
     (case trending_start_idx offset (length rows) of
        Inl e \<Rightarrow> Inl e
      | Inr start_idx \<Rightarrow> Inr (slice start_idx (start_idx + 10) rows))"

definition url_example :: "movie list" where
  "url_example =
     [\<lparr>index_label = IntLabel 0, title = ''Heat'', vote_average = Some 8\<rparr>,
      \<lparr>index_label = IntLabel 1, title = ''Alien'', vote_average = Some 9\<rparr>]"

section \<open>The metadata service and the poster fallback\<close>

text \<open>
  An HTTP GET either raises or yields a response with a status and a body; \<open>body\<close> is
  \<open>None\<close> when the body is not a JSON document, so that \<open>response.json()\<close> raises.
\<close>

record request =
  url :: string
  headers :: "(string \<times> string) list"
  params :: "(string \<times> json) list"

record response =
  status_code :: nat
  body :: "json option"

definition response_json :: "response \<Rightarrow> py_error + json" where
  "response_json r = (case body r of None \<Rightarrow> Inl JSONDecodeError | Some data \<Rightarrow> Inr data)"

text \<open>Sequencing of steps that can raise: the first exception ends the sequence.\<close>

definition and_then :: "py_error + 'a \<Rightarrow> ('a \<Rightarrow> py_error + 'b) \<Rightarrow> py_error + 'b" where
  "and_then r f = (case r of Inl e \<Rightarrow> Inl e | Inr x \<Rightarrow> f x)"

text \<open>\<open>data.get(k)\<close> on a decoded document: only a dict has the method.\<close>

definition json_get :: "json \<Rightarrow> string \<Rightarrow> py_error + json" where
  "json_get data k = (case data of JObj d \<Rightarrow> Inr (dict_get d k) | _ \<Rightarrow> Inl AttributeError)"

text \<open>
  \<open>fetch_movie_details\<close> of the similarity front end. The body of its \<open>try\<close> is
  \<open>fetch_movie_details_try\<close>: it yields the document when the service answered
  \<open>"Response": "True"\<close> and nothing otherwise. The bare \<open>except\<close> turns every
  exception into falling through to \<open>return None\<close>.
\<close>

definition omdb_request :: "string \<Rightarrow> string \<Rightarrow> request" where
  "omdb_request api_key movie_title =
     \<lparr>url = ''https://www.omdbapi.com/?t='' @ movie_title @ ''&apikey='' @ api_key,
      headers = [], params = []\<rparr>"

definition fetch_movie_details_try ::
  "(request \<Rightarrow> py_error + response) \<Rightarrow> string \<Rightarrow> string \<Rightarrow>
     py_error + (string \<times> json) list option" where
  "fetch_movie_details_try get api_key movie_title =
     and_then (get (omdb_request api_key movie_title)) (\<lambda>r.
     and_then (response_json r) (\<lambda>data.
     and_then (json_get data ''Response'') (\<lambda>answer.
       if answer = JStr ''True''
       then (case data of JObj d \<Rightarrow> Inr (Some d) | _ \<Rightarrow> Inr None)
       else Inr None)))"

definition fetch_movie_details ::
  "(request \<Rightarrow> py_error + response) \<Rightarrow> string \<Rightarrow> string \<Rightarrow> (string \<times> json) list option" where
  "fetch_movie_details get api_key movie_title =
     (case fetch_movie_details_try get api_key movie_title of
        Inl e \<Rightarrow> None
      | Inr found \<Rightarrow> found)"

text \<open>\<open>poster in [None, "N/A", ""]\<close>\<close>

definition poster_missing :: "json \<Rightarrow> bool" where
  "poster_missing poster = (poster = JNull \<or> poster = JStr ''N/A'' \<or> poster = JStr [])"

text \<open>
  The four places of the similarity front end that choose the poster to show: the loop of
  \<open>recommend\<close>, the detail view of the selected movie, the grid of recommendations (which
  checks the value again) and the trending grid. \<open>if details\<close> is Python truthiness: a
  missing document and an empty one are both false.
\<close>

definition recommend_poster :: "(string \<times> json) list option \<Rightarrow> json" where
  "recommend_poster details =
     (let poster = (case details of
                      None \<Rightarrow> JNull
                    | Some d \<Rightarrow> if d \<noteq> [] then dict_get d ''Poster'' else JNull)
      in if poster_missing poster
         then JStr ''https://via.placeholder.com/300x450?text=No+Image''
         else poster)"

definition detail_poster :: "(string \<times> json) list \<Rightarrow> json" where
  "detail_poster current_info =
     (let poster = dict_get current_info ''Poster''
      in if poster_missing poster
         then JStr ''https://via.placeholder.com/300x450?text=No+Image''
         else poster)"

definition grid_poster :: "json \<Rightarrow> json" where
  "grid_poster poster_url =
     (if poster_missing poster_url
      then JStr ''https://via.placeholder.com/300x450?text=No+Image''
      else poster_url)"

definition trending_poster :: "(string \<times> json) list option \<Rightarrow> json" where
  "trending_poster details =
     (let poster_url = (case details of
                          None \<Rightarrow> JStr ''https://via.placeholder.com/300x450''
                        | Some d \<Rightarrow> if d \<noteq> [] then dict_get d ''Poster''
                                    else JStr ''https://via.placeholder.com/300x450'')
      in if poster_missing poster_url
         then JStr ''https://via.placeholder.com/300x450?text=No+Image''
         else poster_url)"

text \<open>
  The movie card of the catalog front end. The poster path is spliced into an f-string;
  \<open>str\<close> stands for Python's formatting of a value that is not a string.
\<close>

definition TMDB_IMAGE_BASE_URL :: string where
  "TMDB_IMAGE_BASE_URL = ''https://image.tmdb.org/t/p/w500''"

definition card_poster :: "(json \<Rightarrow> string) \<Rightarrow> (string \<times> json) list \<Rightarrow> string" where
  "card_poster str movie =
     (let poster_path = dict_get movie ''poster_path''
      in if truthy poster_path
         then TMDB_IMAGE_BASE_URL @ (case poster_path of JStr s \<Rightarrow> s | v \<Rightarrow> str v)
         else ''https://via.placeholder.com/500x750?text=No+Poster'')"

section \<open>The similarity front end: recommend\<close>

text \<open>
  \<open>movies[movies["title"] == movie_name].index[0]\<close>: the rows with that title, their
  index labels, and the first of these. The result is the index label of the first row
  with the title, not its position; \<open>IndexError\<close> when no row has the title.
\<close>

definition title_index :: "movie list \<Rightarrow> string \<Rightarrow> py_error + label" where
  "title_index movies movie_name =
     (case map index_label (filter (\<lambda>m. title m = movie_name) movies) of
        [] \<Rightarrow> Inl IndexError
      | l # _ \<Rightarrow> Inr l)"

text \<open>
  \<open>similarity[index]\<close>: the program uses the label as a position in the similarity
  table. An integer counts from the front, a negative one from the end, and one outside
  the table raises; a label that is not an integer raises as well (a \<open>TypeError\<close> on a
  list, an \<open>IndexError\<close> on an array; the model has the former).
\<close>

definition row_at_label :: "'a list \<Rightarrow> label \<Rightarrow> py_error + 'a" where
  "row_at_label xs l =
     (case l of
        OtherLabel other \<Rightarrow> Inl TypeError
      | IntLabel i \<Rightarrow>
          if 0 \<le> i \<and> i < int (length xs) then Inr (xs ! nat i)
          else if i < 0 \<and> - int (length xs) \<le> i then Inr (xs ! nat (i + int (length xs)))
          else Inl IndexError)"

text \<open>\<open>movies.iloc[i]\<close> and \<open>valid_movies[i]\<close> at a position that is not negative.\<close>

definition row_at :: "'a list \<Rightarrow> nat \<Rightarrow> py_error + 'a" where
  "row_at xs i = (if i < length xs then Inr (xs ! i) else Inl IndexError)"

text \<open>\<open>m_data.get('vote_average', 0)\<close>\<close>

definition rating_of :: "movie \<Rightarrow> rat" where
  "rating_of m_data = (case vote_average m_data of None \<Rightarrow> 0 | Some r \<Rightarrow> r)"

text \<open>
  \<open>sorted(list(enumerate(distances)), reverse=True, key=lambda x: x[1])[1:31]\<close>.
  Python's sort is stable, also with \<open>reverse=True\<close>: entries with equal keys keep their
  order. \<open>sort_key\<close> on the negated key is that sort.
\<close>

definition movie_list :: "rat list \<Rightarrow> (nat \<times> rat) list" where
  "movie_list distances = slice 1 31 (sort_key (\<lambda>x. - snd x) (enumerate 0 distances))"

text \<open>The first loop: one \<open>{'title': ..., 'rating': ...}\<close> per neighbour, as a pair.\<close>

fun recommendations :: "movie list \<Rightarrow> (nat \<times> rat) list \<Rightarrow> py_error + (string \<times> rat) list" where
  "recommendations movies [] = Inr []"
| "recommendations movies (i # rest) =
     and_then (row_at movies (fst i)) (\<lambda>m_data.
     and_then (recommendations movies rest) (\<lambda>more.
       Inr ((title m_data, rating_of m_data) # more)))"

text \<open>
  The second loop, which asks the metadata service for each pick in turn. \<open>get k\<close> is the
  service as it answers the \<open>k\<close>-th request of this call.
\<close>

fun names_posters ::
  "(nat \<Rightarrow> request \<Rightarrow> py_error + response) \<Rightarrow> string \<Rightarrow> nat \<Rightarrow> (string \<times> rat) list \<Rightarrow>
     string list \<times> json list" where
  "names_posters get api_key k [] = ([], [])"
| "names_posters get api_key k (m # rest) =
     (let details = fetch_movie_details (get k) api_key (fst m);
          poster = recommend_poster details;
          later = names_posters get api_key (Suc k) rest
      in (fst m # fst later, poster # snd later))"

definition recommend ::
  "movie list \<Rightarrow> rat list list \<Rightarrow> (nat \<Rightarrow> request \<Rightarrow> py_error + response) \<Rightarrow> string \<Rightarrow>
     string \<Rightarrow> int \<Rightarrow> py_error + (string list \<times> json list)" where
  "recommend movies similarity get api_key movie_name num_movies =
     and_then (title_index movies movie_name) (\<lambda>index.
     and_then (row_at_label similarity index) (\<lambda>distances.
     and_then (recommendations movies (movie_list distances)) (\<lambda>recs.
       let top_picks = slice_upto num_movies (sort_key (\<lambda>x. - snd x) recs)
       in Inr (names_posters get api_key 0 top_picks))))"

text \<open>A catalog with two entries whose similarity rows are equal, and a service that is down.\<close>

definition twins :: "movie list" where
  "twins =
     [\<lparr>index_label = IntLabel 0, title = ''Solaris (1972)'', vote_average = Some 8\<rparr>,
      \<lparr>index_label = IntLabel 1, title = ''Solaris (2002)'', vote_average = Some 6\<rparr>,
      \<lparr>index_label = IntLabel 2, title = ''Heat'', vote_average = Some 7\<rparr>]"

definition twins_similarity :: "rat list list" where
  "twins_similarity = [[1, 1, 1 / 5], [1, 1, 1 / 5], [1 / 5, 1 / 5, 1]]"

definition offline :: "nat \<Rightarrow> request \<Rightarrow> py_error + response" where
  "offline k r = Inl ConnectionError"




section \<open>The catalog front end: remote fetches\<close>

text \<open>
  Every method below builds a request, and then, inside one \<open>try\<close>, sends it through
  the session, calls \<open>raise_for_status\<close>, decodes the body and reads a field of it.
  For each method \<open>f\<close> the body of the \<open>try\<close> is \<open>f_try\<close>, which can raise, and the
  method itself is the \<open>try\<close> with its \<open>except Exception\<close> handler, which returns the
  empty result (and shows the error in the page). Arguments that Python leaves untyped are
  \<open>json\<close> values; \<open>str\<close> stands for Python's formatting of a value that is not a string.
\<close>

definition TMDB_BASE_URL :: string where
  "TMDB_BASE_URL = ''https://api.themoviedb.org/3''"

definition tmdb_headers :: "string \<Rightarrow> (string \<times> string) list" where
  "tmdb_headers api_key =
     [(''Authorization'', ''Bearer '' @ api_key), (''accept'', ''application/json'')]"

definition format_value :: "(json \<Rightarrow> string) \<Rightarrow> json \<Rightarrow> string" where
  "format_value str v = (case v of JStr s \<Rightarrow> s | _ \<Rightarrow> str v)"

text \<open>\<open>response.raise_for_status()\<close> raises on a 4xx or 5xx status.\<close>

definition raise_for_status :: "response \<Rightarrow> py_error + unit" where
  "raise_for_status r =
     (if 400 \<le> status_code r \<and> status_code r < 600 then Inl HTTPError else Inr ())"

text \<open>\<open>data[k]\<close> with a string key: a dict has it or raises \<open>KeyError\<close>, nothing else takes it.\<close>

definition subscript :: "json \<Rightarrow> string \<Rightarrow> py_error + json" where
  "subscript data k =
     (case data of
        JObj d \<Rightarrow> (case map_of d k of None \<Rightarrow> Inl KeyError | Some v \<Rightarrow> Inr v)
      | _ \<Rightarrow> Inl TypeError)"

text \<open>The steps shared by every \<open>try\<close> body: send, check the status, decode.\<close>

definition get_json :: "(request \<Rightarrow> py_error + response) \<Rightarrow> request \<Rightarrow> py_error + json" where
  "get_json session_get req =
     and_then (session_get req) (\<lambda>response.
     and_then (raise_for_status response) (\<lambda>_.
       response_json response))"

definition fetch_trending_request :: "string \<Rightarrow> json \<Rightarrow> json \<Rightarrow> json \<Rightarrow> request" where
  "fetch_trending_request api_key page language_code year =
     (if truthy language_code \<or> truthy year
      then \<lparr>url = TMDB_BASE_URL @ ''/discover/movie'',
            headers = tmdb_headers api_key,
            params = [(''sort_by'', JStr ''popularity.desc''), (''page'', page)]
              @ (if truthy language_code then [(''with_original_language'', language_code)] else [])
              @ (if truthy year then [(''primary_release_year'', year)] else [])\<rparr>
      else \<lparr>url = TMDB_BASE_URL @ ''/trending/movie/week'',
            headers = tmdb_headers api_key,
            params = [(''page'', page)]\<rparr>)"

definition fetch_trending_movies_try ::
  "(request \<Rightarrow> py_error + response) \<Rightarrow> string \<Rightarrow> json \<Rightarrow> json \<Rightarrow> json \<Rightarrow> py_error + json" where
  "fetch_trending_movies_try session_get api_key page language_code year =
     and_then (get_json session_get (fetch_trending_request api_key page language_code year))
       (\<lambda>data. subscript data ''results'')"

definition fetch_trending_movies ::
  "(request \<Rightarrow> py_error + response) \<Rightarrow> string \<Rightarrow> json \<Rightarrow> json \<Rightarrow> json \<Rightarrow> json" where
  "fetch_trending_movies session_get api_key page language_code year =
     (case fetch_trending_movies_try session_get api_key page language_code year of
        Inl e \<Rightarrow> JArr []
      | Inr results \<Rightarrow> results)"

definition fetch_popular_movies_try ::
  "(request \<Rightarrow> py_error + response) \<Rightarrow> string \<Rightarrow> json \<Rightarrow> py_error + json" where
  "fetch_popular_movies_try session_get api_key page =
     and_then (get_json session_get
        \<lparr>url = TMDB_BASE_URL @ ''/movie/popular'', headers = tmdb_headers api_key,
         params = [(''page'', page)]\<rparr>)
       (\<lambda>data. subscript data ''results'')"

definition fetch_popular_movies ::
  "(request \<Rightarrow> py_error + response) \<Rightarrow> string \<Rightarrow> json \<Rightarrow> json" where
  "fetch_popular_movies session_get api_key page =
     (case fetch_popular_movies_try session_get api_key page of
        Inl e \<Rightarrow> JArr []
      | Inr results \<Rightarrow> results)"

text \<open>
  \<open>search_movies\<close> returns a pair: the results and \<open>data.get('total_pages', 1)\<close>. The
  subscript before it succeeded, so \<open>data\<close> is a dict there.
\<close>

definition total_pages_of :: "json \<Rightarrow> json" where
  "total_pages_of data =
     (case data of
        JObj d \<Rightarrow> (case map_of d ''total_pages'' of None \<Rightarrow> JNum 1 | Some v \<Rightarrow> v)
      | _ \<Rightarrow> JNum 1)"

definition search_movies_try ::
  "(request \<Rightarrow> py_error + response) \<Rightarrow> string \<Rightarrow> json \<Rightarrow> json \<Rightarrow> py_error + json \<times> json" where
  "search_movies_try session_get api_key q page =
     and_then (get_json session_get
        \<lparr>url = TMDB_BASE_URL @ ''/search/movie'', headers = tmdb_headers api_key,
         params = [(''query'', q), (''page'', page)]\<rparr>)
       (\<lambda>data. and_then (subscript data ''results'') (\<lambda>results.
          Inr (results, total_pages_of data)))"

definition search_movies ::
  "(request \<Rightarrow> py_error + response) \<Rightarrow> string \<Rightarrow> json \<Rightarrow> json \<Rightarrow> json \<times> json" where
  "search_movies session_get api_key q page =
     (case search_movies_try session_get api_key q page of
        Inl e \<Rightarrow> (JArr [], JNum 1)
      | Inr found \<Rightarrow> found)"

text \<open>\<open>get_movie_details\<close> returns the whole document, or \<open>None\<close>.\<close>

definition get_movie_details_try ::
  "(request \<Rightarrow> py_error + response) \<Rightarrow> string \<Rightarrow> (json \<Rightarrow> string) \<Rightarrow> json \<Rightarrow> py_error + json" where
  "get_movie_details_try session_get api_key str movie_id =
     get_json session_get
       \<lparr>url = TMDB_BASE_URL @ ''/movie/'' @ format_value str movie_id,
        headers = tmdb_headers api_key,
        params = [(''append_to_response'', JStr ''credits,keywords,similar'')]\<rparr>"

definition get_movie_details ::
  "(request \<Rightarrow> py_error + response) \<Rightarrow> string \<Rightarrow> (json \<Rightarrow> string) \<Rightarrow> json \<Rightarrow> json" where
  "get_movie_details session_get api_key str movie_id =
     (case get_movie_details_try session_get api_key str movie_id of
        Inl e \<Rightarrow> JNull
      | Inr data \<Rightarrow> data)"

definition get_movie_by_genre_try ::
  "(request \<Rightarrow> py_error + response) \<Rightarrow> string \<Rightarrow> json \<Rightarrow> json \<Rightarrow> py_error + json" where
  "get_movie_by_genre_try session_get api_key genre_id page =
     and_then (get_json session_get
        \<lparr>url = TMDB_BASE_URL @ ''/discover/movie'', headers = tmdb_headers api_key,
         params = [(''with_genres'', genre_id), (''sort_by'', JStr ''popularity.desc''),
                   (''page'', page)]\<rparr>)
       (\<lambda>data. subscript data ''results'')"

definition get_movie_by_genre ::
  "(request \<Rightarrow> py_error + response) \<Rightarrow> string \<Rightarrow> json \<Rightarrow> json \<Rightarrow> json" where
  "get_movie_by_genre session_get api_key genre_id page =
     (case get_movie_by_genre_try session_get api_key genre_id page of
        Inl e \<Rightarrow> JArr []
      | Inr results \<Rightarrow> results)"

definition get_genres_try :: "(request \<Rightarrow> py_error + response) \<Rightarrow> string \<Rightarrow> py_error + json" where
  "get_genres_try session_get api_key =
     and_then (get_json session_get
        \<lparr>url = TMDB_BASE_URL @ ''/genre/movie/list'', headers = tmdb_headers api_key,
         params = []\<rparr>)
       (\<lambda>data. subscript data ''genres'')"

definition get_genres :: "(request \<Rightarrow> py_error + response) \<Rightarrow> string \<Rightarrow> json" where
  "get_genres session_get api_key =
     (case get_genres_try session_get api_key of Inl e \<Rightarrow> JArr [] | Inr genres \<Rightarrow> genres)"

definition get_movie_by_language_try ::
  "(request \<Rightarrow> py_error + response) \<Rightarrow> string \<Rightarrow> json \<Rightarrow> json \<Rightarrow> py_error + json" where
  "get_movie_by_language_try session_get api_key language_code page =
     and_then (get_json session_get
        \<lparr>url = TMDB_BASE_URL @ ''/discover/movie'', headers = tmdb_headers api_key,
         params = [(''with_original_language'', language_code),
                   (''sort_by'', JStr ''popularity.desc''), (''page'', page)]\<rparr>)
       (\<lambda>data. subscript data ''results'')"

definition get_movie_by_language ::
  "(request \<Rightarrow> py_error + response) \<Rightarrow> string \<Rightarrow> json \<Rightarrow> json \<Rightarrow> json" where
  "get_movie_by_language session_get api_key language_code page =
     (case get_movie_by_language_try session_get api_key language_code page of
        Inl e \<Rightarrow> JArr []
      | Inr results \<Rightarrow> results)"

definition get_movie_by_year_try ::
  "(request \<Rightarrow> py_error + response) \<Rightarrow> string \<Rightarrow> json \<Rightarrow> json \<Rightarrow> py_error + json" where
  "get_movie_by_year_try session_get api_key year page =
     and_then (get_json session_get
        \<lparr>url = TMDB_BASE_URL @ ''/discover/movie'', headers = tmdb_headers api_key,
         params = [(''primary_release_year'', year),
                   (''sort_by'', JStr ''popularity.desc''), (''page'', page)]\<rparr>)
       (\<lambda>data. subscript data ''results'')"

definition get_movie_by_year ::
  "(request \<Rightarrow> py_error + response) \<Rightarrow> string \<Rightarrow> json \<Rightarrow> json \<Rightarrow> json" where
  "get_movie_by_year session_get api_key year page =
     (case get_movie_by_year_try session_get api_key year page of
        Inl e \<Rightarrow> JArr []
      | Inr results \<Rightarrow> results)"

definition get_movies_with_filters_try ::
  "(request \<Rightarrow> py_error + response) \<Rightarrow> string \<Rightarrow> json \<Rightarrow> json \<Rightarrow> json \<Rightarrow> json \<Rightarrow>
     py_error + json" where
  "get_movies_with_filters_try session_get api_key genre_id language_code year page =
     and_then (get_json session_get
        \<lparr>url = TMDB_BASE_URL @ ''/discover/movie'', headers = tmdb_headers api_key,
         params = [(''sort_by'', JStr ''popularity.desc''), (''page'', page)]
           @ (if truthy genre_id then [(''with_genres'', genre_id)] else [])
           @ (if truthy language_code then [(''with_original_language'', language_code)] else [])
           @ (if truthy year then [(''primary_release_year'', year)] else [])\<rparr>)
       (\<lambda>data. subscript data ''results'')"

definition get_movies_with_filters ::
  "(request \<Rightarrow> py_error + response) \<Rightarrow> string \<Rightarrow> json \<Rightarrow> json \<Rightarrow> json \<Rightarrow> json \<Rightarrow> json" where
  "get_movies_with_filters session_get api_key genre_id language_code year page =
     (case get_movies_with_filters_try session_get api_key genre_id language_code year page of
        Inl e \<Rightarrow> JArr []
      | Inr results \<Rightarrow> results)"

text \<open>\<open>'|'.join(language_codes)\<close>, built before the \<open>try\<close> from a list of strings.\<close>

fun join :: "string \<Rightarrow> string list \<Rightarrow> string" where
  "join sep [] = []"
| "join sep [x] = x"
| "join sep (x # y # rest) = x @ sep @ join sep (y # rest)"

definition get_latest_movies_try ::
  "(request \<Rightarrow> py_error + response) \<Rightarrow> string \<Rightarrow> json \<Rightarrow> string list option \<Rightarrow> bool \<Rightarrow>
     py_error + json" where
  "get_latest_movies_try session_get api_key page language_codes include_dubbed =
     and_then (get_json session_get
        \<lparr>url = TMDB_BASE_URL @ ''/discover/movie'', headers = tmdb_headers api_key,
         params = [(''sort_by'', JStr ''primary_release_date.desc''), (''page'', page)]
           @ (case language_codes of
                None \<Rightarrow> []
              | Some codes \<Rightarrow>
                  if codes \<noteq> []
                  then (if include_dubbed
                        then [(''with_original_language'', JStr (join ''|'' codes))]
                        else [(''with_original_language'', JStr (join ''|'' codes))])
                  else [])\<rparr>)
       (\<lambda>data. subscript data ''results'')"

definition get_latest_movies ::
  "(request \<Rightarrow> py_error + response) \<Rightarrow> string \<Rightarrow> json \<Rightarrow> string list option \<Rightarrow> bool \<Rightarrow> json" where
  "get_latest_movies session_get api_key page language_codes include_dubbed =
     (case get_latest_movies_try session_get api_key page language_codes include_dubbed of
        Inl e \<Rightarrow> JArr []
      | Inr results \<Rightarrow> results)"

definition get_dubbed_movies_try ::
  "(request \<Rightarrow> py_error + response) \<Rightarrow> string \<Rightarrow> string \<Rightarrow> bool \<Rightarrow> json \<Rightarrow> py_error + json" where
  "get_dubbed_movies_try session_get api_key target_language exclude_original page =
     and_then (get_json session_get
        \<lparr>url = TMDB_BASE_URL @ ''/discover/movie'', headers = tmdb_headers api_key,
         params = [(''sort_by'', JStr ''popularity.desc''), (''page'', page),
                   (''vote_count.gte'', JNum 100)]
           @ (if exclude_original
              then [(''with_original_language'', JStr (''!'' @ target_language))] else [])\<rparr>)
       (\<lambda>data. subscript data ''results'')"

definition get_dubbed_movies ::
  "(request \<Rightarrow> py_error + response) \<Rightarrow> string \<Rightarrow> string \<Rightarrow> bool \<Rightarrow> json \<Rightarrow> json" where
  "get_dubbed_movies session_get api_key target_language exclude_original page =
     (case get_dubbed_movies_try session_get api_key target_language exclude_original page of
        Inl e \<Rightarrow> JArr []
      | Inr results \<Rightarrow> results)"

text \<open>A service that is down, one that answers 500, and one that answers a search.\<close>

definition unreachable :: "request \<Rightarrow> py_error + response" where
  "unreachable req = Inl ConnectionError"

definition server_error :: "request \<Rightarrow> py_error + response" where
  "server_error req = Inr \<lparr>status_code = 500, body = None\<rparr>"

definition one_hit :: "request \<Rightarrow> py_error + response" where
  "one_hit req =
     Inr \<lparr>status_code = 200,
          body = Some (JObj [(''results'', JArr [JObj [(''id'', JNum 603)]])])\<rparr>"

section \<open>The catalog front end: content-based recommendations\<close>

text \<open>
  \<open>create_feature_string\<close> reads a decoded document with \<open>in\<close>, subscripts, slices and
  comprehensions, each of which raises on a value of the wrong shape.
\<close>

fun has_substring :: "string \<Rightarrow> string \<Rightarrow> bool" where
  "has_substring k [] = (k = [])"
| "has_substring k (c # s) = (take (length k) (c # s) = k \<or> has_substring k s)"

text \<open>\<open>k in v\<close>: a key of a dict, an element of a list, a substring of a string.\<close>

definition contains :: "string \<Rightarrow> json \<Rightarrow> py_error + bool" where
  "contains k v =
     (case v of
        JObj d \<Rightarrow> Inr (k \<in> set (map fst d))
      | JArr xs \<Rightarrow> Inr (JStr k \<in> set xs)
      | JStr s \<Rightarrow> Inr (has_substring k s)
      | _ \<Rightarrow> Inl TypeError)"

text \<open>\<open>for x in v\<close>: the elements of a list, the keys of a dict, the characters of a string.\<close>

definition iterate :: "json \<Rightarrow> py_error + json list" where
  "iterate v =
     (case v of
        JArr xs \<Rightarrow> Inr xs
      | JObj d \<Rightarrow> Inr (map (\<lambda>kv. JStr (fst kv)) d)
      | JStr s \<Rightarrow> Inr (map (\<lambda>c. JStr [c]) s)
      | _ \<Rightarrow> Inl TypeError)"

text \<open>\<open>v[:n]\<close>: a list and a string can be sliced, nothing else.\<close>

definition slice_json :: "int \<Rightarrow> json \<Rightarrow> py_error + json" where
  "slice_json n v =
     (case v of
        JArr xs \<Rightarrow> Inr (JArr (slice_upto n xs))
      | JStr s \<Rightarrow> Inr (JStr (slice_upto n s))
      | _ \<Rightarrow> Inl TypeError)"

text \<open>A comprehension whose element expression can raise: the first exception ends it.\<close>

fun map_raising :: "('a \<Rightarrow> py_error + 'b) \<Rightarrow> 'a list \<Rightarrow> py_error + 'b list" where
  "map_raising f [] = Inr []"
| "map_raising f (x # xs) =
     and_then (f x) (\<lambda>y. and_then (map_raising f xs) (\<lambda>ys. Inr (y # ys)))"

text \<open>\<open>[x['name'] for x in v]\<close>\<close>

definition names_in :: "json \<Rightarrow> py_error + json list" where
  "names_in v = and_then (iterate v) (map_raising (\<lambda>x. subscript x ''name''))"

text \<open>\<open>[c['name'] for c in crew if c['job'] == 'Director']\<close>\<close>

definition directors_in :: "json \<Rightarrow> py_error + json list" where
  "directors_in crew =
     and_then (iterate crew) (\<lambda>cs.
     and_then (map_raising (\<lambda>c.
         and_then (subscript c ''job'') (\<lambda>job.
           if job = JStr ''Director''
           then and_then (subscript c ''name'') (\<lambda>n. Inr [n])
           else Inr [])) cs) (\<lambda>found.
       Inr (concat found)))"

text \<open>\<open>outer in movie and inner in movie[outer]\<close>\<close>

definition has_nested :: "json \<Rightarrow> string \<Rightarrow> string \<Rightarrow> py_error + bool" where
  "has_nested movie outer inner =
     and_then (contains outer movie) (\<lambda>present.
       if present then and_then (subscript movie outer) (contains inner) else Inr False)"

text \<open>\<open>' '.join(features)\<close>: every feature has to be a string.\<close>

fun strings_of :: "json list \<Rightarrow> py_error + string list" where
  "strings_of [] = Inr []"
| "strings_of (JStr s # rest) = and_then (strings_of rest) (\<lambda>more. Inr (s # more))"
| "strings_of (v # rest) = Inl TypeError"

definition create_feature_string :: "json \<Rightarrow> py_error + string" where
  "create_feature_string movie =
     and_then (contains ''genres'' movie) (\<lambda>has_genres.
     and_then (if has_genres then and_then (subscript movie ''genres'') names_in
               else Inr []) (\<lambda>genres.
     and_then (has_nested movie ''keywords'' ''keywords'') (\<lambda>has_keywords.
     and_then (if has_keywords
               then and_then (subscript movie ''keywords'') (\<lambda>outer.
                    and_then (subscript outer ''keywords'') (\<lambda>inner.
                    and_then (slice_json 10 inner) names_in))
               else Inr []) (\<lambda>keywords.
     and_then (has_nested movie ''credits'' ''crew'') (\<lambda>has_crew.
     and_then (if has_crew
               then and_then (subscript movie ''credits'') (\<lambda>credits.
                    and_then (subscript credits ''crew'') directors_in)
               else Inr []) (\<lambda>directors.
     and_then (has_nested movie ''credits'' ''cast'') (\<lambda>has_cast.
     and_then (if has_cast
               then and_then (subscript movie ''credits'') (\<lambda>credits.
                    and_then (subscript credits ''cast'') (\<lambda>cast.
                    and_then (slice_json 5 cast) names_in))
               else Inr []) (\<lambda>cast.
     and_then (contains ''overview'' movie) (\<lambda>has_overview.
     and_then (if has_overview
               then and_then (subscript movie ''overview'') (\<lambda>overview. Inr [overview])
               else Inr []) (\<lambda>overview.
     and_then (strings_of (genres @ keywords @ directors @ cast @ overview)) (\<lambda>features.
       Inr (join '' '' features))))))))))))"

text \<open>
  The loop of \<open>get_content_based_recommendations\<close> over the candidates. It fills
  \<open>movie_features\<close> and \<open>valid_movies\<close> in step; the model keeps them as one list of pairs.
  Ids are compared as decoded values; the service's ids are numbers.
\<close>

fun valid_movies_of ::
  "(request \<Rightarrow> py_error + response) \<Rightarrow> string \<Rightarrow> (json \<Rightarrow> string) \<Rightarrow> json \<Rightarrow> json list \<Rightarrow>
     py_error + (string \<times> json) list" where
  "valid_movies_of session_get api_key str movie_id [] = Inr []"
| "valid_movies_of session_get api_key str movie_id (movie # rest) =
     and_then (subscript movie ''id'') (\<lambda>candidate_id.
       if candidate_id \<noteq> movie_id
       then (let details = get_movie_details session_get api_key str candidate_id
             in if truthy details
                then and_then (create_feature_string details) (\<lambda>feature_str.
                     and_then (valid_movies_of session_get api_key str movie_id rest) (\<lambda>more.
                       Inr ((feature_str, details) # more)))
                else valid_movies_of session_get api_key str movie_id rest)
       else valid_movies_of session_get api_key str movie_id rest)"

text \<open>
  The TF-IDF vectoriser and the cosine similarity come from a library: \<open>tfidf_similarities\<close>
  takes the feature strings, the target's first, and yields the similarity of the target to
  each of the others, or raises. \<open>argsort\<close> is the library's too: the positions of an array
  in ascending order of the values.
\<close>

definition get_content_based_recommendations ::
  "(request \<Rightarrow> py_error + response) \<Rightarrow> string \<Rightarrow> (json \<Rightarrow> string) \<Rightarrow>
     (string list \<Rightarrow> py_error + rat list) \<Rightarrow> (rat list \<Rightarrow> nat list) \<Rightarrow>
     json \<Rightarrow> json list \<Rightarrow> int \<Rightarrow> py_error + json list" where
  "get_content_based_recommendations session_get api_key str tfidf_similarities argsort
       movie_id movies_list top_n =
     (let target_movie = get_movie_details session_get api_key str movie_id
      in if \<not> truthy target_movie then Inr []
         else
           and_then (create_feature_string target_movie) (\<lambda>target_features.
           and_then (valid_movies_of session_get api_key str movie_id movies_list) (\<lambda>valid.
             let movie_features = map fst valid;
                 valid_movies = map snd valid
             in if movie_features = [] then Inr []
                else
                  and_then (tfidf_similarities (target_features # movie_features)) (\<lambda>similarities.
                    let similar_indices = rev (slice_from (- top_n) (argsort similarities))
                    in map_raising (row_at valid_movies) similar_indices))))"

text \<open>
  A small run: a service that answers every detail request with a document that names the
  requested address, a formatter for the three ids in use, similarities that fall along the
  candidates, and a stable ascending argsort.
\<close>

definition detail_service :: "request \<Rightarrow> py_error + response" where
  "detail_service req =
     Inr \<lparr>status_code = 200,
          body = Some (JObj [(''homepage'', JStr (url req)), (''overview'', JStr ''a heist'')])\<rparr>"

definition show_id :: "json \<Rightarrow> string" where
  "show_id v = (if v = JNum 1 then ''1'' else if v = JNum 2 then ''2'' else ''3'')"

definition falling_similarities :: "string list \<Rightarrow> py_error + rat list" where
  "falling_similarities features = Inr (map (\<lambda>i. 1 / of_nat (i + 2)) [0 ..< length features - 1])"

definition stable_argsort :: "rat list \<Rightarrow> nat list" where
  "stable_argsort xs = map fst (sort_key snd (enumerate 0 xs))"

definition three_candidates :: "json list" where
  "three_candidates = [JObj [(''id'', JNum 1)], JObj [(''id'', JNum 2)], JObj [(''id'', JNum 3)]]"

section \<open>Liked movies\<close>

lemma liked_movies_save [simp]: "liked_movies (save_liked_movies s io) = liked_movies s"
  by (cases io) (simp_all add: save_liked_movies_def)

lemma history_save_liked [simp]:
  "user_search_history (save_liked_movies s io) = user_search_history s"
  by (cases io) (simp_all add: save_liked_movies_def)

lemma history_save_history [simp]:
  "user_search_history (save_search_history s io) = user_search_history s"
  by (cases io) (simp_all add: save_search_history_def)

lemma liked_movies_save_history [simp]:
  "liked_movies (save_search_history s io) = liked_movies s"
  by (cases io) (simp_all add: save_search_history_def)

lemma liked_after_like:
  "liked_movies (like_movie s movie_id data m now io) =
     AList.update movie_id \<lparr>movie_data = data, timestamp = now, mode = mode_or_unknown m\<rparr>
       (liked_movies s)"
  by (simp add: like_movie_def)

lemma liked_after_unlike:
  "liked_movies (unlike_movie s movie_id io) = AList.delete movie_id (liked_movies s)"
  by (simp add: unlike_movie_def)

text \<open>
  C2. Liking a movie id that is already liked keeps the liked ids exactly as they were
  (same ids, same order), stores the new record under that id and leaves the record of
  every other id alone. Unliking a movie id that is not liked changes nothing at all,
  neither the mapping nor the file.
\<close>

theorem like_unlike_idempotent:
  "(is_movie_liked s movie_id \<longrightarrow>
      map fst (liked_movies (like_movie s movie_id data m now io)) = map fst (liked_movies s)
    \<and> map_of (liked_movies (like_movie s movie_id data m now io)) movie_id =
        Some \<lparr>movie_data = data, timestamp = now, mode = mode_or_unknown m\<rparr>
    \<and> (\<forall>other. other \<noteq> movie_id \<longrightarrow>
          map_of (liked_movies (like_movie s movie_id data m now io)) other =
          map_of (liked_movies s) other))
   \<and> (\<not> is_movie_liked s movie_id \<longrightarrow> unlike_movie s movie_id io = s)"
  by (simp add: liked_after_like is_movie_liked_def AList.update_keys AList.update_conv'
        unlike_movie_def)

theorem like_unlike_idempotent_witness:
  "is_movie_liked liked_example 550
   \<and> map fst (liked_movies (like_movie liked_example 550 JNull (Some ''Search'') 200 Dumped))
       = [550, 13]
   \<and> map_of (liked_movies (like_movie liked_example 550 JNull (Some ''Search'') 200 Dumped)) 13
       = map_of (liked_movies liked_example) 13
   \<and> \<not> is_movie_liked liked_example 7
   \<and> unlike_movie liked_example 7 Dumped = liked_example"
proof -
  have a: "is_movie_liked liked_example 550"
    by (simp add: is_movie_liked_def liked_example_def)
  have b: "\<not> is_movie_liked liked_example 7"
    by (simp add: is_movie_liked_def liked_example_def)
  have k: "map fst (liked_movies liked_example) = [550, 13]"
    by (simp add: liked_example_def)
  from like_unlike_idempotent [of liked_example 550 JNull "Some ''Search''" 200 Dumped]
       like_unlike_idempotent [of liked_example 7 JNull None 0 Dumped] a b k
  show ?thesis by simp
qed

text \<open>
  C10. Whatever the liked movies are, liking a movie id and then unliking it leaves a
  state in which that id is not liked and in which every other id has the record it had
  before, in the order it had before.
\<close>

theorem like_then_unlike:
  "\<not> is_movie_liked (unlike_movie (like_movie s movie_id data m now io) movie_id io') movie_id
   \<and> (\<forall>other. other \<noteq> movie_id \<longrightarrow>
        map_of (liked_movies (unlike_movie (like_movie s movie_id data m now io) movie_id io'))
          other = map_of (liked_movies s) other)"
  by (simp add: is_movie_liked_def liked_after_unlike liked_after_like
        AList.delete_conv' AList.update_conv' AList.delete_keys)

theorem like_then_unlike_witness:
  "\<not> is_movie_liked (unlike_movie (like_movie liked_example 7 JNull None 5 Dumped) 7 Dumped) 7
   \<and> map_of (liked_movies (unlike_movie (like_movie liked_example 7 JNull None 5 Dumped) 7
        Dumped)) 13 = map_of (liked_movies liked_example) 13"
  using like_then_unlike [of liked_example 7 JNull None 5 Dumped Dumped] by simp

section \<open>Search history\<close>

lemma slice_from_last_50:
  "length xs > 50 \<Longrightarrow> slice_from (- 50) xs = drop (length xs - 50) xs"
  by (simp add: slice_from_def slice_bound_def nat_diff_distrib')

lemma history_after_add:
  "user_search_history (add_to_search_history s q ids langs now io) =
     drop (length (user_search_history s) + 1 - 50)
       (user_search_history s @
          [\<lparr>query = q, movie_ids = or_empty ids, languages = or_empty langs, timestamp = now\<rparr>])"
  by (simp add: add_to_search_history_def Let_def slice_from_last_50)

text \<open>
  C6, as the program has it. A call of \<open>add_to_search_history\<close> appends exactly one entry,
  which records the query, the movie ids and the languages (an omitted list as \<open>[]\<close>), and
  then keeps the last 50 entries of the result, in their order. Liking and unliking do not
  touch the history. The one other writer is the Clear History button, which empties it.
\<close>

theorem search_history_capped_log:
  "user_search_history (perform s (AddToSearchHistory q ids langs now io)) =
     drop (length (user_search_history s) + 1 - 50)
       (user_search_history s @
          [\<lparr>query = q, movie_ids = or_empty ids, languages = or_empty langs, timestamp = now\<rparr>])
   \<and> length (user_search_history (perform s (AddToSearchHistory q ids langs now io))) \<le> 50
   \<and> user_search_history (perform s (LikeMovie movie_id data m now' io')) =
       user_search_history s
   \<and> user_search_history (perform s (UnlikeMovie movie_id io')) = user_search_history s
   \<and> user_search_history (perform s (ClearHistory io)) = []"
  by (simp add: history_after_add like_movie_def unlike_movie_def clear_history_def)

text \<open>
  C6 as the specification words it fails: the Clear History button removes entries from a
  history that is far below the cap.
\<close>

theorem clear_history_removes_entries:
  "length (user_search_history history_example) \<le> 50
   \<and> \<lparr>query = ''heat'', movie_ids = [949], languages = [''en''], timestamp = 10\<rparr>
       \<in> set (user_search_history history_example)
   \<and> \<lparr>query = ''heat'', movie_ids = [949], languages = [''en''], timestamp = 10\<rparr>
       \<notin> set (user_search_history (perform history_example (ClearHistory Dumped)))"
  by (simp add: history_example_def clear_history_def)

section \<open>Pagination\<close>

lemma handle_keeps_pages:
  "1 \<le> current_page s \<and> 1 \<le> search_page s \<and> 1 \<le> recommendation_page s \<Longrightarrow>
   1 \<le> current_page (handle s e) \<and> 1 \<le> search_page (handle s e)
   \<and> 1 \<le> recommendation_page (handle s e)"
  by (cases e) (simp_all add: Let_def)

lemma events_keep_pages:
  "1 \<le> current_page s \<and> 1 \<le> search_page s \<and> 1 \<le> recommendation_page s \<Longrightarrow>
   1 \<le> current_page (foldl handle s es) \<and> 1 \<le> search_page (foldl handle s es)
   \<and> 1 \<le> recommendation_page (foldl handle s es)"
proof (induction es arbitrary: s)
  case Nil
  then show ?case by simp
next
  case (Cons e es)
  from Cons.prems have "1 \<le> current_page (handle s e) \<and> 1 \<le> search_page (handle s e)
      \<and> 1 \<le> recommendation_page (handle s e)"
    by (rule handle_keeps_pages)
  then show ?case using Cons.IH [of "handle s e"] by simp
qed

lemma trending_window:
  assumes "10 < length rows"
  shows "trending_movies offset rows =
           Inr (take 10 (drop (nat (offset mod (int (length rows) - 10))) rows))"
    and "0 \<le> offset mod (int (length rows) - 10)"
    and "offset mod (int (length rows) - 10) + 10 < int (length rows)"
proof -
  let ?d = "int (length rows) - 10"
  from assms have pos: "0 < ?d" by simp
  then show nonneg: "0 \<le> offset mod ?d" by simp
  from pos have lt: "offset mod ?d < ?d" by simp
  then show "offset mod ?d + 10 < int (length rows)" by simp
  from nonneg lt have a: "slice_bound (length rows) (offset mod ?d) = nat (offset mod ?d)"
    by (simp add: slice_bound_def)
  from nonneg lt have b: "slice_bound (length rows) (offset mod ?d + 10) = nat (offset mod ?d) + 10"
    by (simp add: slice_bound_def nat_add_distrib)
  from pos show "trending_movies offset rows = Inr (take 10 (drop (nat (offset mod ?d)) rows))"
    by (simp add: trending_movies_def trending_start_idx_def slice_def a b)
qed

text \<open>
  C3, as the program has it. After any sequence of pagination events, in any mode, the
  three page counters are at least 1. In the similarity front end the trending offset is
  reduced modulo the size of the table less 10: over a table of more than 10 rows the
  start index lies from 0 up to the size less 11, and the rows shown are the ten rows from
  the start index on, so a growing offset wraps around.
\<close>

theorem pagination_bounds:
  "1 \<le> current_page (foldl handle initial_pages es)
   \<and> 1 \<le> search_page (foldl handle initial_pages es)
   \<and> 1 \<le> recommendation_page (foldl handle initial_pages es)
   \<and> (10 < length rows \<longrightarrow>
        trending_start_idx offset (length rows) = Inr (offset mod (int (length rows) - 10))
        \<and> 0 \<le> offset mod (int (length rows) - 10)
        \<and> offset mod (int (length rows) - 10) + 10 < int (length rows)
        \<and> trending_movies offset rows =
            Inr (take 10 (drop (nat (offset mod (int (length rows) - 10))) rows))
        \<and> (\<forall>shown. trending_movies offset rows = Inr shown \<longrightarrow> length shown = 10))"
proof -
  have "1 \<le> current_page initial_pages \<and> 1 \<le> search_page initial_pages
      \<and> 1 \<le> recommendation_page initial_pages"
    by (simp add: initial_pages_def)
  then have p: "1 \<le> current_page (foldl handle initial_pages es)
      \<and> 1 \<le> search_page (foldl handle initial_pages es)
      \<and> 1 \<le> recommendation_page (foldl handle initial_pages es)"
    by (rule events_keep_pages)
  have t: "trending_start_idx offset (length rows) = Inr (offset mod (int (length rows) - 10))
        \<and> 0 \<le> offset mod (int (length rows) - 10)
        \<and> offset mod (int (length rows) - 10) + 10 < int (length rows)
        \<and> trending_movies offset rows =
            Inr (take 10 (drop (nat (offset mod (int (length rows) - 10))) rows))
        \<and> (\<forall>shown. trending_movies offset rows = Inr shown \<longrightarrow> length shown = 10)"
    if big: "10 < length rows"
  proof -
    note w = trending_window [OF big, of offset]
    have "trending_start_idx offset (length rows) = Inr (offset mod (int (length rows) - 10))"
      using big by (simp add: trending_start_idx_def)
    moreover have "length (take 10 (drop (nat (offset mod (int (length rows) - 10))) rows)) = 10"
      using w(2,3) by simp
    ultimately show ?thesis using w by simp
  qed
  from p t show ?thesis by blast
qed

theorem pagination_bounds_witness:
  "1 \<le> current_page (foldl handle initial_pages [Next BrowseTrending, Previous BrowseTrending,
        Previous BrowseTrending, EmptyResult BrowseByGenre])
   \<and> 10 < length [0 ..< 25]
   \<and> trending_start_idx (refresh (refresh 0)) (length [0 ..< 25]) = Inr 5
   \<and> trending_movies (refresh (refresh 0)) [0 ..< 25] = Inr [5 ..< 15]"
proof -
  have big: "10 < length [0 ..< 25]" by simp
  have "take 10 (drop 5 [0 ..< 25]) = [5 ..< 15]" by code_simp
  with pagination_bounds [of "[Next BrowseTrending, Previous BrowseTrending,
        Previous BrowseTrending, EmptyResult BrowseByGenre]" "[0 ..< 25]" "refresh (refresh 0)"] big
  show ?thesis by (simp add: refresh_def)
qed

text \<open>
  C3 as the specification words it fails: the offset is not reduced modulo the size of the
  data set. After two refreshes over 25 rows the window starts at row 5, not at row 20.
\<close>

theorem trending_offset_not_modulo_size:
  "trending_start_idx (refresh (refresh 0)) 25 \<noteq> Inr (refresh (refresh 0) mod 25)"
  by (simp add: trending_start_idx_def refresh_def)

section \<open>Deep link\<close>

text \<open>
  C7. When the \<open>movie\<close> parameter is present and its value is a title of the table, the
  selected movie is that value afterwards; when its value is not a title of the table, the
  session is left exactly as it was.
\<close>

theorem deep_link_selects_known_titles:
  "map_of query_params ''movie'' = Some v \<Longrightarrow>
   (v \<in> set (map title movies) \<longrightarrow>
      selected_movie_name (handle_url_params movies query_params s) = Some (Some v))
   \<and> (v \<notin> set (map title movies) \<longrightarrow> handle_url_params movies query_params s = s)"
  by (auto simp add: handle_url_params_def)

theorem deep_link_selects_known_titles_witness:
  "map_of [(''movie'', ''Alien'')] ''movie'' = Some ''Alien''
   \<and> ''Alien'' \<in> set (map title url_example)
   \<and> selected_movie_name
        (handle_url_params url_example [(''movie'', ''Alien'')]
           \<lparr>selected_movie_name = Some None, movie_selectbox = None, trending_offset = Some 0\<rparr>)
       = Some (Some ''Alien'')
   \<and> map_of [(''movie'', ''Dune'')] ''movie'' = Some ''Dune''
   \<and> ''Dune'' \<notin> set (map title url_example)
   \<and> handle_url_params url_example [(''movie'', ''Dune'')]
        \<lparr>selected_movie_name = Some None, movie_selectbox = None, trending_offset = Some 0\<rparr>
       = \<lparr>selected_movie_name = Some None, movie_selectbox = None, trending_offset = Some 0\<rparr>"
proof -
  have a: "map_of [(''movie'', ''Alien'')] ''movie'' = Some ''Alien''" by simp
  have b: "map_of [(''movie'', ''Dune'')] ''movie'' = Some ''Dune''" by simp
  have c: "''Alien'' \<in> set (map title url_example)" by (simp add: url_example_def)
  have d: "''Dune'' \<notin> set (map title url_example)" by (simp add: url_example_def)
  from deep_link_selects_known_titles [OF a, of url_example
         "\<lparr>selected_movie_name = Some None, movie_selectbox = None, trending_offset = Some 0\<rparr>"]
       deep_link_selects_known_titles [OF b, of url_example
         "\<lparr>selected_movie_name = Some None, movie_selectbox = None, trending_offset = Some 0\<rparr>"]
       a b c d
  show ?thesis by simp
qed

section \<open>Poster fallback\<close>

text \<open>
  C4, as the program has it. In the similarity front end a poster value that is \<open>None\<close>
  (also when the field is absent), empty or \<open>"N/A"\<close> is replaced by one and the same
  constant in the loop of \<open>recommend\<close>, in the detail view, in the grid of
  recommendations and in the trending grid, and \<open>recommend\<close> uses that constant when the
  lookup failed. The movie card of the catalog front end has a constant of its own, used
  when the poster path is absent, \<open>None\<close> or empty.
\<close>

theorem poster_placeholder:
  "(poster_missing p \<longrightarrow>
      grid_poster p = JStr ''https://via.placeholder.com/300x450?text=No+Image'')
   \<and> (poster_missing (dict_get d ''Poster'') \<longrightarrow>
        detail_poster d = JStr ''https://via.placeholder.com/300x450?text=No+Image''
        \<and> recommend_poster (Some d) = JStr ''https://via.placeholder.com/300x450?text=No+Image''
        \<and> (d \<noteq> [] \<longrightarrow>
             trending_poster (Some d) = JStr ''https://via.placeholder.com/300x450?text=No+Image''))
   \<and> recommend_poster None = JStr ''https://via.placeholder.com/300x450?text=No+Image''
   \<and> (dict_get movie ''poster_path'' = JNull \<or> dict_get movie ''poster_path'' = JStr [] \<longrightarrow>
        card_poster str movie = ''https://via.placeholder.com/500x750?text=No+Poster'')"
  by (auto simp add: grid_poster_def detail_poster_def recommend_poster_def trending_poster_def
        card_poster_def poster_missing_def Let_def)

theorem poster_placeholder_witness:
  "poster_missing (JStr ''N/A'')
   \<and> grid_poster (JStr ''N/A'') = JStr ''https://via.placeholder.com/300x450?text=No+Image''
   \<and> poster_missing (dict_get [(''Response'', JStr ''True''), (''Poster'', JStr ''N/A'')] ''Poster'')
   \<and> trending_poster (Some [(''Response'', JStr ''True''), (''Poster'', JStr ''N/A'')])
       = JStr ''https://via.placeholder.com/300x450?text=No+Image''
   \<and> dict_get [(''id'', JNum 11)] ''poster_path'' = JNull
   \<and> card_poster (\<lambda>v. []) [(''id'', JNum 11)] = ''https://via.placeholder.com/500x750?text=No+Poster''"
proof -
  have a: "poster_missing (JStr ''N/A'')" by (simp add: poster_missing_def)
  have b: "poster_missing (dict_get [(''Response'', JStr ''True''), (''Poster'', JStr ''N/A'')] ''Poster'')"
    by (simp add: poster_missing_def dict_get_def)
  have c: "dict_get [(''id'', JNum 11)] ''poster_path'' = JNull" by (simp add: dict_get_def)
  from poster_placeholder [of "JStr ''N/A''"
         "[(''Response'', JStr ''True''), (''Poster'', JStr ''N/A'')]" "[(''id'', JNum 11)]" "\<lambda>v. []"]
       a b c
  show ?thesis by simp
qed

text \<open>
  C4 as the specification words it fails: the placeholder is not the same at every display
  site. For a movie without a poster the movie card of the catalog front end shows a
  constant that differs from the one of the similarity front end.
\<close>

theorem card_placeholder_differs:
  "JStr (card_poster (\<lambda>v. []) [(''id'', JNum 11)]) \<noteq> recommend_poster None"
  by (simp add: card_poster_def recommend_poster_def dict_get_def poster_missing_def)

section \<open>Recommendations of the similarity front end\<close>

text \<open>
  C1 at a catalog with a tie. The second Solaris is as similar to the first one as to
  itself, the stable sort keeps the first one in front, the slice drops that one, and the
  query itself is among the recommendations while its nearest neighbour is not.
\<close>

theorem recommend_returns_query_on_tie:
  "recommend twins twins_similarity offline ''k'' ''Solaris (2002)'' 5 =
     Inr ([''Heat'', ''Solaris (2002)''],
          [JStr ''https://via.placeholder.com/300x450?text=No+Image'',
           JStr ''https://via.placeholder.com/300x450?text=No+Image''])"
  by code_simp

lemma and_then_Inr [simp]: "and_then (Inr x) f = f x"
  by (simp add: and_then_def)

lemma and_then_Inl [simp]: "and_then (Inl e) f = Inl e"
  by (simp add: and_then_def)





lemma slice_upto_subset: "set (slice_upto n xs) \<subseteq> set xs"
  by (simp add: slice_upto_def set_take_subset)




lemma names_posters_names: "fst (names_posters get api_key k picks) = map fst picks"
  by (induction picks arbitrary: k) (simp_all add: Let_def)







section \<open>Remote fetches\<close>

lemma get_json_raises:
  "session_get req = Inl e \<Longrightarrow> get_json session_get req = Inl e"
  by (simp add: get_json_def)

lemma get_json_bad_status:
  "session_get req = Inr r \<Longrightarrow> 400 \<le> status_code r \<Longrightarrow> status_code r < 600 \<Longrightarrow>
   get_json session_get req = Inl HTTPError"
  by (simp add: get_json_def raise_for_status_def)

lemma get_json_ok:
  "session_get req = Inr r \<Longrightarrow> status_code r < 400 \<Longrightarrow> body r = Some data \<Longrightarrow>
   get_json session_get req = Inr data"
  by (simp add: get_json_def raise_for_status_def response_json_def)

text \<open>
  C5. Whatever exception the request, the status check, the decoding or the field access
  raises, every remote fetch returns its empty result: the empty list for the listings,
  \<open>None\<close> for the two single-item lookups, the empty list with page count 1 for the
  search. None of them can raise: each is a total function into plain values. A search
  that succeeds returns the results with the page count the service reported, and with 1
  when the service reported none.
\<close>

theorem remote_fetch_degrades:
  "(fetch_trending_movies_try session_get api_key page language_code year = Inl e \<longrightarrow>
      fetch_trending_movies session_get api_key page language_code year = JArr [])
   \<and> (fetch_popular_movies_try session_get api_key page = Inl e \<longrightarrow>
        fetch_popular_movies session_get api_key page = JArr [])
   \<and> (search_movies_try session_get api_key q page = Inl e \<longrightarrow>
        search_movies session_get api_key q page = (JArr [], JNum 1))
   \<and> (get_movie_details_try session_get api_key str movie_id = Inl e \<longrightarrow>
        get_movie_details session_get api_key str movie_id = JNull)
   \<and> (get_movie_by_genre_try session_get api_key genre_id page = Inl e \<longrightarrow>
        get_movie_by_genre session_get api_key genre_id page = JArr [])
   \<and> (get_genres_try session_get api_key = Inl e \<longrightarrow> get_genres session_get api_key = JArr [])
   \<and> (get_movie_by_language_try session_get api_key language_code page = Inl e \<longrightarrow>
        get_movie_by_language session_get api_key language_code page = JArr [])
   \<and> (get_movie_by_year_try session_get api_key year page = Inl e \<longrightarrow>
        get_movie_by_year session_get api_key year page = JArr [])
   \<and> (get_movies_with_filters_try session_get api_key genre_id language_code year page = Inl e \<longrightarrow>
        get_movies_with_filters session_get api_key genre_id language_code year page = JArr [])
   \<and> (get_latest_movies_try session_get api_key page language_codes include_dubbed = Inl e \<longrightarrow>
        get_latest_movies session_get api_key page language_codes include_dubbed = JArr [])
   \<and> (get_dubbed_movies_try session_get api_key target_language exclude_original page = Inl e \<longrightarrow>
        get_dubbed_movies session_get api_key target_language exclude_original page = JArr [])
   \<and> (fetch_movie_details_try omdb_get omdb_key movie_title = Inl e \<longrightarrow>
        fetch_movie_details omdb_get omdb_key movie_title = None)
   \<and> (\<forall>r d results.
        session_get \<lparr>url = TMDB_BASE_URL @ ''/search/movie'', headers = tmdb_headers api_key,
                     params = [(''query'', q), (''page'', page)]\<rparr> = Inr r
        \<and> status_code r < 400 \<and> body r = Some (JObj d) \<and> map_of d ''results'' = Some results \<longrightarrow>
        search_movies session_get api_key q page =
          (results, case map_of d ''total_pages'' of None \<Rightarrow> JNum 1 | Some n \<Rightarrow> n))"
  by (simp add: fetch_trending_movies_def fetch_popular_movies_def search_movies_def
        get_movie_details_def get_movie_by_genre_def get_genres_def get_movie_by_language_def
        get_movie_by_year_def get_movies_with_filters_def get_latest_movies_def
        get_dubbed_movies_def fetch_movie_details_def search_movies_try_def get_json_ok
        subscript_def total_pages_of_def)

theorem remote_fetch_degrades_witness:
  "fetch_trending_movies_try unreachable ''k'' (JNum 1) JNull JNull = Inl ConnectionError
   \<and> fetch_trending_movies unreachable ''k'' (JNum 1) JNull JNull = JArr []
   \<and> get_movie_details_try server_error ''k'' (\<lambda>v. ''603'') (JNum 603) = Inl HTTPError
   \<and> get_movie_details server_error ''k'' (\<lambda>v. ''603'') (JNum 603) = JNull
   \<and> search_movies_try unreachable ''k'' (JStr ''matrix'') (JNum 1) = Inl ConnectionError
   \<and> search_movies unreachable ''k'' (JStr ''matrix'') (JNum 1) = (JArr [], JNum 1)
   \<and> search_movies one_hit ''k'' (JStr ''matrix'') (JNum 1) =
       (JArr [JObj [(''id'', JNum 603)]], JNum 1)"
proof -
  have a: "fetch_trending_movies_try unreachable ''k'' (JNum 1) JNull JNull = Inl ConnectionError"
    by (simp add: fetch_trending_movies_try_def get_json_def unreachable_def)
  have b: "get_movie_details_try server_error ''k'' (\<lambda>v. ''603'') (JNum 603) = Inl HTTPError"
    by (simp add: get_movie_details_try_def get_json_def server_error_def raise_for_status_def)
  have c: "search_movies_try unreachable ''k'' (JStr ''matrix'') (JNum 1) = Inl ConnectionError"
    by (simp add: search_movies_try_def get_json_def unreachable_def)
  have d: "one_hit \<lparr>url = TMDB_BASE_URL @ ''/search/movie'', headers = tmdb_headers ''k'',
                     params = [(''query'', JStr ''matrix''), (''page'', JNum 1)]\<rparr>
           = Inr \<lparr>status_code = 200,
                  body = Some (JObj [(''results'', JArr [JObj [(''id'', JNum 603)]])])\<rparr>"
    by (simp add: one_hit_def)
  note down = remote_fetch_degrades [where session_get = unreachable and api_key = "''k''"
      and page = "JNum 1" and language_code = JNull and year = JNull and q = "JStr ''matrix''"
      and e = ConnectionError]
  note err = remote_fetch_degrades [where session_get = server_error and api_key = "''k''"
      and str = "\<lambda>v. ''603''" and movie_id = "JNum 603" and e = HTTPError]
  note hit = remote_fetch_degrades [where session_get = one_hit and api_key = "''k''"
      and page = "JNum 1" and q = "JStr ''matrix''"]
  from hit d have "search_movies one_hit ''k'' (JStr ''matrix'') (JNum 1) =
       (JArr [JObj [(''id'', JNum 603)]], JNum 1)"
    by simp
  with a b c down err show ?thesis by simp
qed

section \<open>Content-based recommendations\<close>

lemma map_raising_length:
  "map_raising f xs = Inr ys \<Longrightarrow> length ys = length xs"
proof (induction xs arbitrary: ys)
  case Nil
  then show ?case by simp
next
  case (Cons x xs)
  then show ?case by (auto simp add: and_then_def split: sum.splits)
qed

lemma map_raising_row_at:
  "map_raising (row_at xs) idxs = Inr ys \<Longrightarrow> set ys \<subseteq> set xs"
proof (induction idxs arbitrary: ys)
  case Nil
  then show ?case by simp
next
  case (Cons i idxs)
  then show ?case
    by (auto simp add: and_then_def row_at_def split: sum.splits if_splits)
qed

lemma valid_movies_origin:
  "valid_movies_of session_get api_key str movie_id movies_list = Inr valid \<Longrightarrow>
   (f, details) \<in> set valid \<Longrightarrow>
   \<exists>movie \<in> set movies_list. \<exists>candidate_id.
      subscript movie ''id'' = Inr candidate_id \<and> candidate_id \<noteq> movie_id
      \<and> details = get_movie_details session_get api_key str candidate_id"
proof (induction movies_list arbitrary: valid)
  case Nil
  then show ?case by simp
next
  case (Cons movie rest)
  from Cons.prems(1) obtain candidate_id where cid: "subscript movie ''id'' = Inr candidate_id"
    by (cases "subscript movie ''id''") simp_all
  show ?case
  proof (cases "candidate_id \<noteq> movie_id
                \<and> truthy (get_movie_details session_get api_key str candidate_id)")
    case False
    with Cons.prems cid
    have "valid_movies_of session_get api_key str movie_id rest = Inr valid"
      by (auto simp add: Let_def split: if_splits)
    from Cons.IH [OF this Cons.prems(2)] show ?thesis by auto
  next
    case True
    with Cons.prems(1) cid obtain feature_str more
      where more: "valid_movies_of session_get api_key str movie_id rest = Inr more"
        and valid: "valid = (feature_str, get_movie_details session_get api_key str candidate_id) # more"
      by (auto simp add: Let_def and_then_def split: sum.splits)
    show ?thesis
    proof (cases "(f, details) \<in> set more")
      case True
      from Cons.IH [OF more this] show ?thesis by auto
    next
      case False
      with Cons.prems(2) valid
      have "details = get_movie_details session_get api_key str candidate_id" by simp
      with cid \<open>candidate_id \<noteq> movie_id \<and> _\<close> show ?thesis by auto
    qed
  qed
qed

text \<open>
  What holds of every result: each returned document is the one fetched for a candidate
  of the supplied list whose id differs from the target's, and for a \<open>top_n\<close> of at least 1
  there are at most \<open>top_n\<close> of them.
\<close>

lemma recommendations_origin:
  assumes "get_content_based_recommendations session_get api_key str tfidf_similarities argsort
             movie_id movies_list top_n = Inr recs"
      and "r \<in> set recs"
  shows "\<exists>movie \<in> set movies_list. \<exists>candidate_id.
           subscript movie ''id'' = Inr candidate_id \<and> candidate_id \<noteq> movie_id
           \<and> r = get_movie_details session_get api_key str candidate_id"
proof -
  from assms obtain valid idxs
    where valid: "valid_movies_of session_get api_key str movie_id movies_list = Inr valid"
      and recs: "map_raising (row_at (map snd valid)) idxs = Inr recs"
    by (auto simp add: get_content_based_recommendations_def Let_def and_then_def
          split: if_splits sum.splits)
  from map_raising_row_at [OF recs] assms(2) have "r \<in> snd ` set valid" by auto
  then obtain f where "(f, r) \<in> set valid" by auto
  from valid_movies_origin [OF valid this] show ?thesis .
qed

lemma recommendations_at_most_top_n:
  assumes "get_content_based_recommendations session_get api_key str tfidf_similarities argsort
             movie_id movies_list top_n = Inr recs"
      and "1 \<le> top_n"
  shows "int (length recs) \<le> top_n"
proof (cases "recs = []")
  case True
  with assms(2) show ?thesis by simp
next
  case False
  with assms(1) obtain sims
    where recs: "map_raising (row_at (map snd
             (case valid_movies_of session_get api_key str movie_id movies_list of Inr v \<Rightarrow> v)))
           (rev (slice_from (- top_n) (argsort sims))) = Inr recs"
    by (auto simp add: get_content_based_recommendations_def Let_def and_then_def
          split: if_splits sum.splits)
  from map_raising_length [OF recs]
  have "length recs = length (slice_from (- top_n) (argsort sims))" by simp
  also have "int \<dots> \<le> top_n"
    using assms(2) by (simp add: slice_from_def slice_bound_def)
  finally show ?thesis by simp
qed

text \<open>
  C9 at \<open>top_n = 0\<close>. \<open>[-top_n:]\<close> is then \<open>[0:]\<close>, the whole array: asked for no
  movie, the method returns every candidate it could fetch. Asked for one it returns one.
\<close>

theorem top_n_zero_returns_all:
  "get_content_based_recommendations detail_service ''k'' show_id falling_similarities
     stable_argsort (JNum 1) three_candidates 0 =
     Inr [JObj [(''homepage'', JStr ''https://api.themoviedb.org/3/movie/2''),
                (''overview'', JStr ''a heist'')],
          JObj [(''homepage'', JStr ''https://api.themoviedb.org/3/movie/3''),
                (''overview'', JStr ''a heist'')]]
   \<and> get_content_based_recommendations detail_service ''k'' show_id falling_similarities
     stable_argsort (JNum 1) three_candidates 1 =
     Inr [JObj [(''homepage'', JStr ''https://api.themoviedb.org/3/movie/2''),
                (''overview'', JStr ''a heist'')]]"
  by code_simp

section \<open>What every result of recommend satisfies\<close>

lemma recommendations_Inr:
  "recommendations movies neighbours = Inr recs \<Longrightarrow>
   recs = map (\<lambda>x. (title (movies ! fst x), rating_of (movies ! fst x))) neighbours"
proof (induction neighbours arbitrary: recs)
  case Nil
  then show ?case by simp
next
  case (Cons x neighbours)
  then show ?case
    by (auto simp add: and_then_def row_at_def split: sum.splits if_splits)
qed

lemma slice_upto_sorted:
  "sorted (map f xs) \<Longrightarrow> sorted (map f (slice_upto n xs))"
  by (simp add: slice_upto_def take_map [symmetric] sorted_wrt_take del: take_map)

text \<open>
  What holds of every result of \<open>recommend\<close>: the names are those of picks in descending
  order of rating, and every pick is a row of the table at a position of the neighbour list.
\<close>

lemma recommend_sorted_by_rating:
  assumes "recommend movies similarity get api_key movie_name num_movies = Inr (names, posters)"
  shows "\<exists>index distances picks.
           title_index movies movie_name = Inr index
         \<and> row_at_label similarity index = Inr distances
         \<and> names = map fst picks
         \<and> sorted (map (\<lambda>x. - snd x) picks)
         \<and> set picks \<subseteq> (\<lambda>x. (title (movies ! fst x), rating_of (movies ! fst x)))
                          ` set (movie_list distances)"
proof -
  from assms obtain index distances recs
    where index: "title_index movies movie_name = Inr index"
      and row: "row_at_label similarity index = Inr distances"
      and recs: "recommendations movies (movie_list distances) = Inr recs"
      and result: "names_posters get api_key 0
                     (slice_upto num_movies (sort_key (\<lambda>x. - snd x) recs)) = (names, posters)"
    by (auto simp add: recommend_def and_then_def Let_def split: sum.splits)
  let ?picks = "slice_upto num_movies (sort_key (\<lambda>x. - snd x) recs)"
  from result names_posters_names [of get api_key 0 ?picks]
  have "names = map fst ?picks" by simp
  moreover have "sorted (map (\<lambda>x. - snd x) ?picks)"
    by (rule slice_upto_sorted) simp
  moreover have "set ?picks \<subseteq> set recs"
    using slice_upto_subset [of num_movies "sort_key (\<lambda>x. - snd x) recs"] by simp
  ultimately show ?thesis
    using index row recommendations_Inr [OF recs] by auto
qed

text \<open>
  The query is left out when it sorts first, which it does when its similarity to itself
  is strictly the largest of its row.
\<close>

lemma query_excluded_when_strictly_nearest:
  assumes index: "index < length distances"
      and strict: "\<forall>j < length distances. j \<noteq> index \<longrightarrow> distances ! j < distances ! index"
  shows "index \<notin> fst ` set (movie_list distances)"
proof -
  let ?f = "\<lambda>x::nat \<times> rat. - snd x"
  let ?xs = "sort_key ?f (enumerate 0 distances)"
  have set_xs: "set ?xs = set (enumerate 0 distances)" by simp
  have "distinct (map fst (enumerate 0 distances))" by simp
  then have "distinct (enumerate 0 distances) \<and> inj_on fst (set (enumerate 0 distances))"
    by (simp only: distinct_map)
  then have dist: "distinct (map fst ?xs)"
    by (simp add: distinct_map)
  from index have mem: "(index, distances ! index) \<in> set ?xs"
    by (simp add: in_set_enumerate_eq)
  then have "?xs \<noteq> []" by (metis empty_iff empty_set)
  then obtain h rest where xs: "?xs = h # rest" by (cases ?xs) auto
  have sorted: "sorted (map ?f ?xs)" by simp
  from xs have "h \<in> set (enumerate 0 distances)" using set_xs by auto
  then obtain j where j: "j < length distances" "h = (j, distances ! j)"
    by (auto simp add: in_set_enumerate_eq)
  from mem xs sorted have "?f h \<le> ?f (index, distances ! index)"
    by (metis (no_types, lifting) list.simps(9) set_ConsD sorted_simps(2) image_eqI
          list.set_map order_refl)
  with j have "distances ! index \<le> distances ! j" by simp
  with strict j have "j = index" by (metis not_le)
  with j have h: "fst h = index" by simp
  from dist xs h have "index \<notin> fst ` set rest" by auto
  moreover have "set (movie_list distances) \<subseteq> set rest"
  proof -
    from index have a: "slice_bound (length ?xs) 1 = 1"
      by (simp add: slice_bound_def)
    have "set (movie_list distances) \<subseteq> set (drop 1 ?xs)"
      unfolding movie_list_def slice_def Let_def a by (rule set_take_subset)
    with xs show ?thesis by simp
  qed
  ultimately show ?thesis by auto
qed

end
